theory Spec2Isabelle
  imports Complex_Main
begin

section \<open>Voice identification service: the embedding store and the matcher\<close>

text \<open>
  A shallow embedding of \<^verbatim>\<open>backend/python_service/main.py\<close>: the global
  \<^verbatim>\<open>voice_db\<close>, \<^verbatim>\<open>load_db\<close>, \<^verbatim>\<open>save_db\<close> and the bodies of
  \<^verbatim>\<open>enroll_speaker\<close> and \<^verbatim>\<open>identify_speaker\<close>.

  Conventions of the model.
  \<^item> A double is the real number it denotes, or one of \<^verbatim>\<open>inf\<close>, \<^verbatim>\<open>-inf\<close>,
    \<^verbatim>\<open>nan\<close> (\<open>npfloat\<close>); comparing doubles is comparing these values, so the
    comparisons of the code are modelled exactly. Arithmetic on doubles rounds,
    overflows and underflows, and numpy does not fix the order in which \<^verbatim>\<open>np.dot\<close>
    adds. The four operations of the similarity computation are therefore an argument
    (\<open>arith\<close>): every statement below that is quantified over it holds for the
    arithmetic numpy performs, whatever it rounds to. The constants \<^verbatim>\<open>-1.0\<close> and
    \<^verbatim>\<open>0.0\<close> are doubles; \<^verbatim>\<open>0.70\<close> denotes the double nearest to it.
  \<^item> A Python \<^verbatim>\<open>dict\<close> iterates in insertion order, so the database is an
    association list in insertion order; its keys are distinct (\<open>wf_db\<close>).
  \<^item> The embedding provider (the encoder, or \<^verbatim>\<open>np.random.rand\<close> in mock mode) is
    outside the model: its outcome, an exception or an array, is an argument.
  \<^item> The globals and the environment the handlers touch are one record \<open>state\<close>,
    passed in and returned; an exception is the \<open>Inl\<close> of a sum. The message of a
    library exception is abbreviated; \<^verbatim>\<open>print\<close> appends a line to \<open>stdout\<close>.
\<close>

subsection \<open>Data\<close>

text \<open>
  The arrays of the model: a one-dimensional array of numbers, which is what the
  encoder returns and what \<^verbatim>\<open>np.array\<close> makes of a JSON list of numbers, and a
  zero-dimensional array, which is what \<^verbatim>\<open>np.array\<close> makes of a JSON number.
  \<^verbatim>\<open>tolist\<close> gives back the list and the number.
\<close>

datatype ndarray = Array "real list" | Scalar real

datatype jvalue = JList "real list" | JNumber real

fun tolist :: "ndarray \<Rightarrow> jvalue" where
  "tolist (Array xs) = JList xs"
| "tolist (Scalar x) = JNumber x"

fun np_array :: "jvalue \<Rightarrow> ndarray" where
  "np_array (JList xs) = Array xs"
| "np_array (JNumber x) = Scalar x"

text \<open>The entries of an array, as \<^verbatim>\<open>ravel\<close> lists them.\<close>

fun ravel :: "ndarray \<Rightarrow> real list" where
  "ravel (Array xs) = xs"
| "ravel (Scalar x) = [x]"

type_synonym db = "(string \<times> ndarray list) list"

datatype exn = ValueError string | OSError string | JSONDecodeError string | ProviderError string

fun str :: "exn \<Rightarrow> string" where
  "str (ValueError m) = m"
| "str (OSError m) = m"
| "str (JSONDecodeError m) = m"
| "str (ProviderError m) = m"

text \<open>
  The content of \<^verbatim>\<open>embeddings.json\<close>, as \<^verbatim>\<open>load_db\<close> sees it. Either the body
  of its \<^verbatim>\<open>try\<close> raises on it (\<open>Unloadable\<close>, with the exception: text that
  \<^verbatim>\<open>json.load\<close> rejects, a truncated file, a top-level value without
  \<^verbatim>\<open>items\<close>, an entry that cannot be iterated). Or \<^verbatim>\<open>json.load\<close> returns a
  dictionary from names to lists whose members are lists of numbers or numbers
  (\<open>Document\<close>); only lists of numbers are what \<^verbatim>\<open>save_db\<close> writes for a
  database of vectors, but \<^verbatim>\<open>load_db\<close> converts both without raising. Content that
  loads into arrays of other kinds (nested lists, strings) is outside the model, and so
  is the text encoding itself, which belongs to the \<^verbatim>\<open>json\<close> library.
\<close>

datatype file_content = Unloadable exn | Document "(string \<times> jvalue list) list"

text \<open>
  What \<^verbatim>\<open>open(EMBEDDINGS_FILE, 'w')\<close> and the write that follows will do: succeed;
  fail at \<^verbatim>\<open>open\<close>, which leaves the file as it was; or fail after the file was
  opened, hence truncated, which leaves a proper prefix of the JSON text, and
  \<^verbatim>\<open>json.load\<close> rejects every such prefix.
\<close>

datatype disk = Writable | OpenFails | WriteFails

record state =
  voice_db :: db
  embeddings_file :: "file_content option"
  disk :: disk
  stdout :: "string list"

text \<open>The keys of a \<^verbatim>\<open>dict\<close> are distinct; enrollment keeps them so
  (\<open>wf_db_enroll\<close>). No statement below needs it.\<close>

definition wf_db :: "db \<Rightarrow> bool" where
  "wf_db d = distinct (map fst d)"

subsection \<open>numpy\<close>

datatype npfloat = Finite real | PosInf | NegInf | NaN

text \<open>
  The arithmetic of line 127, on one-dimensional arrays of equal length:
  \<^verbatim>\<open>np.dot\<close>, \<^verbatim>\<open>np.linalg.norm\<close>, the product of the two norms and the
  quotient. None of them raises; each returns a double.
\<close>

record arith =
  fl_dot :: "real list \<Rightarrow> real list \<Rightarrow> npfloat"
  fl_norm :: "real list \<Rightarrow> npfloat"
  fl_mul :: "npfloat \<Rightarrow> npfloat \<Rightarrow> npfloat"
  fl_div :: "npfloat \<Rightarrow> npfloat \<Rightarrow> npfloat"

text \<open>Comparison of doubles: every comparison with \<^verbatim>\<open>nan\<close> is false.\<close>

fun np_gt :: "npfloat \<Rightarrow> npfloat \<Rightarrow> bool" where
  "np_gt (Finite a) (Finite b) = (b < a)"
| "np_gt (Finite a) NegInf = True"
| "np_gt PosInf (Finite b) = True"
| "np_gt PosInf NegInf = True"
| "np_gt _ _ = False"

definition np_lt :: "npfloat \<Rightarrow> npfloat \<Rightarrow> bool" where
  "np_lt a b = np_gt b a"

text \<open>The literal \<^verbatim>\<open>0.70\<close>: the double nearest to seven tenths, a little below it.\<close>

definition threshold :: real where
  "threshold = 3152519739159347 / 4503599627370496"

subsection \<open>Persistence\<close>

definition load_db_body :: "file_content \<Rightarrow> exn + db" where
  "load_db_body c =
     (case c of
        Unloadable e \<Rightarrow> Inl e
      | Document data \<Rightarrow> Inr (map (\<lambda>(k, v). (k, map np_array v)) data))"

definition load_db :: "state \<Rightarrow> (exn + unit) \<times> state" where
  "load_db st =
     (case embeddings_file st of
        None \<Rightarrow> (Inr (), st)
      | Some c \<Rightarrow>
          (case load_db_body c of
             Inr d \<Rightarrow> (Inr (), st\<lparr>voice_db := d\<rparr>)
           | Inl e \<Rightarrow> (Inr (), st\<lparr>stdout := stdout st @ [''Error loading DB: '' @ str e]\<rparr>)))"

definition save_db :: "state \<Rightarrow> (exn + unit) \<times> state" where
  "save_db st =
     (let serialized = map (\<lambda>(k, v). (k, map tolist v)) (voice_db st)
      in case disk st of
           OpenFails \<Rightarrow> (Inl (OSError ''cannot open embeddings.json''), st)
         | WriteFails \<Rightarrow>
             (Inl (OSError ''write failed''),
              st\<lparr>embeddings_file := Some (Unloadable (JSONDecodeError ''truncated''))\<rparr>)
         | Writable \<Rightarrow> (Inr (), st\<lparr>embeddings_file := Some (Document serialized)\<rparr>))"

text \<open>
  Module initialisation: \<^verbatim>\<open>voice_db = {}\<close> and then \<^verbatim>\<open>load_db()\<close>, the only
  call of \<^verbatim>\<open>load_db\<close>.
\<close>

definition startup :: "file_content option \<Rightarrow> disk \<Rightarrow> (exn + unit) \<times> state" where
  "startup f dk = load_db \<lparr>voice_db = [], embeddings_file = f, disk = dk, stdout = []\<rparr>"

subsection \<open>Enrollment\<close>

record enroll_response =
  status :: string
  message :: string

datatype http_exception = HTTPException nat string

definition ensure_key :: "string \<Rightarrow> db \<Rightarrow> db" where
  "ensure_key name d = (if name \<notin> set (map fst d) then d @ [(name, [])] else d)"

definition append_embedding :: "string \<Rightarrow> ndarray \<Rightarrow> db \<Rightarrow> db" where
  "append_embedding name embedding d =
     map (\<lambda>(k, v). if k = name then (k, v @ [embedding]) else (k, v)) d"

definition enroll_speaker ::
  "string \<Rightarrow> exn + ndarray \<Rightarrow> state \<Rightarrow> (http_exception + enroll_response) \<times> state" where
  "enroll_speaker name provider st =
     (case provider of
        Inl e \<Rightarrow> (Inl (HTTPException 500 (str e)), st)
      | Inr embedding \<Rightarrow>
          (let st1 = st\<lparr>voice_db := ensure_key name (voice_db st)\<rparr>;
               st2 = st1\<lparr>voice_db := append_embedding name embedding (voice_db st1)\<rparr>
           in case save_db st2 of
                (Inl e, st3) \<Rightarrow> (Inl (HTTPException 500 (str e)), st3)
              | (Inr u, st3) \<Rightarrow>
                  (Inr \<lparr>status = ''success'', message = ''Enrolled '' @ name\<rparr>, st3)))"

subsection \<open>Identification\<close>

record identity_response =
  speaker :: string
  confidence :: npfloat

text \<open>Line 127 on two one-dimensional arrays of equal length.\<close>

definition cosine :: "arith \<Rightarrow> real list \<Rightarrow> real list \<Rightarrow> npfloat" where
  "cosine A xs ys = fl_div A (fl_dot A xs ys) (fl_mul A (fl_norm A xs) (fl_norm A ys))"

text \<open>
  Lines 127 and 128 up to the test: the double that is compared with
  \<^verbatim>\<open>best_score\<close>, or the exception raised on the way.
  \<^item> Two one-dimensional arrays: \<^verbatim>\<open>np.dot\<close> raises when the lengths differ.
  \<^item> A zero-dimensional array with a one-dimensional one of \<open>k\<close> entries:
    \<^verbatim>\<open>np.dot\<close> multiplies entry by entry, and the similarity is an array of \<open>k\<close>
    entries. For \<open>k \<ge> 2\<close> the \<^verbatim>\<open>if\<close> raises (the truth value of the comparison
    is ambiguous). For \<open>k = 1\<close> the one entry is the quotient for the two one-entry
    arrays and is compared as a double. For \<open>k = 0\<close> the comparison is an empty array,
    whose truth value is false in numpy before 2.2: the pair is skipped, as it is when
    the similarity is \<^verbatim>\<open>nan\<close>.
  \<^item> Two zero-dimensional arrays: the quotient for the two one-entry arrays.
\<close>

fun similarity :: "arith \<Rightarrow> ndarray \<Rightarrow> ndarray \<Rightarrow> exn + npfloat" where
  "similarity A (Array xs) (Array ys) =
     (if length xs \<noteq> length ys then Inl (ValueError ''shapes not aligned'')
      else Inr (cosine A xs ys))"
| "similarity A (Array xs) (Scalar y) =
     (if 2 \<le> length xs then Inl (ValueError ''truth value of an array is ambiguous'')
      else if length xs = 1 then Inr (cosine A xs [y])
      else Inr NaN)"
| "similarity A (Scalar x) (Array ys) =
     (if 2 \<le> length ys then Inl (ValueError ''truth value of an array is ambiguous'')
      else if length ys = 1 then Inr (cosine A [x] ys)
      else Inr NaN)"
| "similarity A (Scalar x) (Scalar y) = Inr (cosine A [x] [y])"

text \<open>The inner loop, over the embeddings of one speaker; the pair is
  \<^verbatim>\<open>(best_score, best_match)\<close>.\<close>

fun scan_embeddings ::
  "arith \<Rightarrow> ndarray \<Rightarrow> string \<Rightarrow> ndarray list \<Rightarrow> npfloat \<times> string \<Rightarrow> exn + npfloat \<times> string"
where
  "scan_embeddings A q name [] best = Inr best"
| "scan_embeddings A q name (enrolled_emb # embeddings) (best_score, best_match) =
     (case similarity A q enrolled_emb of
        Inl e \<Rightarrow> Inl e
      | Inr s \<Rightarrow>
          scan_embeddings A q name embeddings
            (if np_gt s best_score then (s, name) else (best_score, best_match)))"

text \<open>The outer loop, over \<^verbatim>\<open>voice_db.items()\<close>.\<close>

fun scan_db :: "arith \<Rightarrow> ndarray \<Rightarrow> db \<Rightarrow> npfloat \<times> string \<Rightarrow> exn + npfloat \<times> string" where
  "scan_db A q [] best = Inr best"
| "scan_db A q ((name, embeddings) # rest) best =
     (case scan_embeddings A q name embeddings best of
        Inl e \<Rightarrow> Inl e
      | Inr best' \<Rightarrow> scan_db A q rest best')"

definition identify_speaker ::
  "arith \<Rightarrow> exn + ndarray \<Rightarrow> state \<Rightarrow> identity_response \<times> state" where
  "identify_speaker A provider st =
     (if voice_db st = [] then (\<lparr>speaker = ''Unknown'', confidence = Finite 0\<rparr>, st)
      else
        (case (case provider of
                 Inl e \<Rightarrow> Inl e
               | Inr query_embedding \<Rightarrow>
                   scan_db A query_embedding (voice_db st) (Finite (- 1), ''Unknown''))
         of
           Inl e \<Rightarrow>
             (\<lparr>speaker = ''Error'', confidence = Finite 0\<rparr>,
              st\<lparr>stdout := stdout st @ [''Identification Error: '' @ str e]\<rparr>)
         | Inr (best_score, best_match) \<Rightarrow>
             (\<lparr>speaker = (if np_lt best_score (Finite threshold) then ''Unknown'' else best_match),
               confidence = best_score\<rparr>,
              st)))"

subsection \<open>Notions the statements below use\<close>

text \<open>The (speaker, array) pairs of a database in iteration order: speakers in
  insertion order, the arrays of each in insertion order.\<close>

definition pairs :: "db \<Rightarrow> (string \<times> ndarray) list" where
  "pairs d = concat (map (\<lambda>(name, embeddings). map (Pair name) embeddings) d)"

text \<open>The two nested loops as one loop over \<open>pairs\<close>.\<close>

fun scan_pairs ::
  "arith \<Rightarrow> ndarray \<Rightarrow> (string \<times> ndarray) list \<Rightarrow> npfloat \<times> string \<Rightarrow> exn + npfloat \<times> string"
where
  "scan_pairs A q [] best = Inr best"
| "scan_pairs A q ((name, enrolled_emb) # ps) (best_score, best_match) =
     (case similarity A q enrolled_emb of
        Inl e \<Rightarrow> Inl e
      | Inr s \<Rightarrow>
          scan_pairs A q ps (if np_gt s best_score then (s, name) else (best_score, best_match)))"

text \<open>The computed score of a pair, \<open>NaN\<close> standing in where the computation raises
  (the statements that use it assume that no pair raises).\<close>

definition score :: "arith \<Rightarrow> ndarray \<Rightarrow> ndarray \<Rightarrow> npfloat" where
  "score A q e = (case similarity A q e of Inl err \<Rightarrow> NaN | Inr s \<Rightarrow> s)"

text \<open>The query and an enrolled array on which lines 127 and 128 raise nothing: two
  one-dimensional arrays of the same length, or, with a zero-dimensional array, at most
  one entry on the other side.\<close>

fun compatible :: "ndarray \<Rightarrow> ndarray \<Rightarrow> bool" where
  "compatible (Array xs) (Array ys) = (length xs = length ys)"
| "compatible (Array xs) (Scalar y) = (length xs \<le> 1)"
| "compatible (Scalar x) (Array ys) = (length ys \<le> 1)"
| "compatible (Scalar x) (Scalar y) = True"

text \<open>Every enrolled array goes with the query: for a database of vectors, every
  vector has the dimension of the query.\<close>

definition same_dim :: "ndarray \<Rightarrow> db \<Rightarrow> bool" where
  "same_dim q d = list_all (\<lambda>(name, e). compatible q e) (pairs d)"

text \<open>The pairs of the speakers that are iterated before \<open>name\<close>.\<close>

definition pairs_before :: "string \<Rightarrow> db \<Rightarrow> (string \<times> ndarray) list" where
  "pairs_before name d = pairs (takeWhile (\<lambda>(k, es). k \<noteq> name) d)"

text \<open>The stored format: what \<^verbatim>\<open>save_db\<close> writes for a database of vectors.\<close>

fun is_JList :: "jvalue \<Rightarrow> bool" where
  "is_JList (JList xs) = True"
| "is_JList (JNumber x) = False"

fun stored_format :: "file_content \<Rightarrow> bool" where
  "stored_format (Unloadable e) = False"
| "stored_format (Document data) = list_all (\<lambda>(k, v). list_all is_JList v) data"

subsection \<open>Exact arithmetic\<close>

text \<open>
  The arithmetic without rounding, with the rules of IEEE 754 for the values that are
  not numbers (the sign of a zero is not modelled; the divisor of line 127 is a product
  of norms, so a zero divisor is \<open>+0\<close>). The examples below are evaluated with it, on
  inputs (entries 0, 1, -1, 2) where each operation on doubles is exact, so that it
  gives there what numpy gives.
\<close>

definition dot :: "real list \<Rightarrow> real list \<Rightarrow> real" where
  "dot xs ys = sum_list (map2 (*) xs ys)"

fun np_mul :: "npfloat \<Rightarrow> npfloat \<Rightarrow> npfloat" where
  "np_mul (Finite a) (Finite b) = Finite (a * b)"
| "np_mul NaN y = NaN"
| "np_mul x NaN = NaN"
| "np_mul PosInf (Finite b) = (if b = 0 then NaN else if 0 < b then PosInf else NegInf)"
| "np_mul NegInf (Finite b) = (if b = 0 then NaN else if 0 < b then NegInf else PosInf)"
| "np_mul (Finite a) PosInf = (if a = 0 then NaN else if 0 < a then PosInf else NegInf)"
| "np_mul (Finite a) NegInf = (if a = 0 then NaN else if 0 < a then NegInf else PosInf)"
| "np_mul PosInf PosInf = PosInf"
| "np_mul NegInf NegInf = PosInf"
| "np_mul PosInf NegInf = NegInf"
| "np_mul NegInf PosInf = NegInf"

fun np_divide :: "npfloat \<Rightarrow> npfloat \<Rightarrow> npfloat" where
  "np_divide (Finite a) (Finite b) =
     (if b \<noteq> 0 then Finite (a / b)
      else if 0 < a then PosInf else if a < 0 then NegInf else NaN)"
| "np_divide NaN y = NaN"
| "np_divide x NaN = NaN"
| "np_divide (Finite a) PosInf = Finite 0"
| "np_divide (Finite a) NegInf = Finite 0"
| "np_divide PosInf (Finite b) = (if 0 \<le> b then PosInf else NegInf)"
| "np_divide NegInf (Finite b) = (if 0 \<le> b then NegInf else PosInf)"
| "np_divide PosInf PosInf = NaN"
| "np_divide PosInf NegInf = NaN"
| "np_divide NegInf PosInf = NaN"
| "np_divide NegInf NegInf = NaN"

definition exact :: arith where
  "exact = \<lparr>fl_dot = (\<lambda>xs ys. Finite (dot xs ys)),
            fl_norm = (\<lambda>xs. Finite (sqrt (dot xs xs))),
            fl_mul = np_mul,
            fl_div = np_divide\<rparr>"

section \<open>Properties\<close>

subsection \<open>Comparison of doubles\<close>

lemma np_gt_trans: "np_gt a b \<Longrightarrow> np_gt b c \<Longrightarrow> np_gt a c"
  by (cases a; cases b; cases c) auto

lemma np_gt_asym: "np_gt a b \<Longrightarrow> \<not> np_gt b a"
  by (cases a; cases b) auto

lemma np_gt_irrefl: "\<not> np_gt a a"
  by (cases a) auto

lemma np_gt_not_NaN: "np_gt a b \<Longrightarrow> a \<noteq> NaN \<and> b \<noteq> NaN"
  by (cases a; cases b) auto

lemma np_gt_total: "a \<noteq> NaN \<Longrightarrow> b \<noteq> NaN \<Longrightarrow> a = b \<or> np_gt a b \<or> np_gt b a"
  by (cases a; cases b) auto

subsection \<open>The scan\<close>

lemma similarity_raises_iff: "(\<exists>e'. similarity A q e = Inl e') \<longleftrightarrow> \<not> compatible q e"
  by (cases q; cases e) auto


lemma scan_pairs_append:
  "scan_pairs A q (ps @ ps') best =
     (case scan_pairs A q ps best of Inl e \<Rightarrow> Inl e | Inr b \<Rightarrow> scan_pairs A q ps' b)"
  by (induction A q ps best rule: scan_pairs.induct) (auto split: sum.splits)

lemma scan_embeddings_pairs:
  "scan_embeddings A q name es best = scan_pairs A q (map (Pair name) es) best"
  by (induction A q name es best rule: scan_embeddings.induct) (auto split: sum.splits)

lemma pairs_Nil: "pairs [] = []"
  by (simp add: pairs_def)

lemma pairs_Cons: "pairs ((name, es) # d) = map (Pair name) es @ pairs d"
  by (simp add: pairs_def)


lemma scan_db_pairs: "scan_db A q d best = scan_pairs A q (pairs d) best"
  by (induction A q d best rule: scan_db.induct)
     (auto simp: pairs_Nil pairs_Cons scan_pairs_append scan_embeddings_pairs split: sum.splits)

text \<open>What a scan that returns has found: either nothing exceeded the initial score,
  or the result is the first pair whose score nothing exceeds.\<close>

lemma scan_pairs_result:
  "scan_pairs A q ps (b0, m0) = Inr (b, m) \<Longrightarrow>
     (b = b0 \<and> m = m0 \<and> (\<forall>p \<in> set ps. \<not> np_gt (score A q (snd p)) b0)) \<or>
     (np_gt b b0 \<and>
      (\<exists>pre e post. ps = pre @ (m, e) # post \<and> score A q e = b \<and>
         (\<forall>p \<in> set pre. \<not> np_gt (score A q (snd p)) b \<and> score A q (snd p) \<noteq> b) \<and>
         (\<forall>p \<in> set post. \<not> np_gt (score A q (snd p)) b)))"
proof (induction ps arbitrary: b0 m0)
  case Nil
  then show ?case by simp
next
  case (Cons p ps)
  obtain n e where p: "p = (n, e)" by (cases p)
  from Cons.prems p obtain s where s: "similarity A q e = Inr s"
    by (auto split: sum.splits)
  then have sc: "score A q e = s" by (simp add: score_def)
  show ?case
  proof (cases "np_gt s b0")
    case True
    with Cons.prems p s have run: "scan_pairs A q ps (s, n) = Inr (b, m)" by simp
    from Cons.IH [OF run] show ?thesis
    proof (elim disjE conjE exE)
      assume "b = s" "m = n" "\<forall>p\<in>set ps. \<not> np_gt (score A q (snd p)) s"
      then have "p # ps = [] @ (m, e) # ps \<and> score A q e = b \<and>
         (\<forall>p \<in> set []. \<not> np_gt (score A q (snd p)) b \<and> score A q (snd p) \<noteq> b) \<and>
         (\<forall>p \<in> set ps. \<not> np_gt (score A q (snd p)) b)"
        using p sc by simp
      then show ?thesis using True \<open>b = s\<close> by blast
    next
      fix pre e' post
      assume gt: "np_gt b s" and split: "ps = pre @ (m, e') # post" and e': "score A q e' = b"
        and pre: "\<forall>p\<in>set pre. \<not> np_gt (score A q (snd p)) b \<and> score A q (snd p) \<noteq> b"
        and post: "\<forall>p\<in>set post. \<not> np_gt (score A q (snd p)) b"
      have "s \<noteq> b" using gt np_gt_irrefl by auto
      moreover have "\<not> np_gt s b" using gt np_gt_asym by blast
      ultimately have "p # ps = (p # pre) @ (m, e') # post \<and> score A q e' = b \<and>
         (\<forall>p \<in> set (p # pre). \<not> np_gt (score A q (snd p)) b \<and> score A q (snd p) \<noteq> b) \<and>
         (\<forall>p \<in> set post. \<not> np_gt (score A q (snd p)) b)"
        using split e' pre post p sc by simp
      moreover have "np_gt b b0" using gt True np_gt_trans by blast
      ultimately show ?thesis by blast
    qed
  next
    case False
    with Cons.prems p s have run: "scan_pairs A q ps (b0, m0) = Inr (b, m)" by simp
    from Cons.IH [OF run] show ?thesis
    proof (elim disjE conjE exE)
      assume "b = b0" "m = m0" "\<forall>p\<in>set ps. \<not> np_gt (score A q (snd p)) b0"
      then show ?thesis using False p sc by simp
    next
      fix pre e' post
      assume gt: "np_gt b b0" and split: "ps = pre @ (m, e') # post" and e': "score A q e' = b"
        and pre: "\<forall>p\<in>set pre. \<not> np_gt (score A q (snd p)) b \<and> score A q (snd p) \<noteq> b"
        and post: "\<forall>p\<in>set post. \<not> np_gt (score A q (snd p)) b"
      have "s \<noteq> b" using gt False by auto
      moreover have "\<not> np_gt s b" using gt False np_gt_trans by blast
      ultimately have "p # ps = (p # pre) @ (m, e') # post \<and> score A q e' = b \<and>
         (\<forall>p \<in> set (p # pre). \<not> np_gt (score A q (snd p)) b \<and> score A q (snd p) \<noteq> b) \<and>
         (\<forall>p \<in> set post. \<not> np_gt (score A q (snd p)) b)"
        using split e' pre post p sc by simp
      then show ?thesis using gt by blast
    qed
  qed
qed

lemma scan_pairs_raises:
  "\<exists>p \<in> set ps. \<not> compatible q (snd p) \<Longrightarrow> \<exists>e. scan_pairs A q ps best = Inl e"
proof (induction A q ps best rule: scan_pairs.induct)
  case (1 A q best)
  then show ?case by simp
next
  case (2 A q name enrolled_emb ps best_score best_match)
  show ?case
  proof (cases "similarity A q enrolled_emb")
    case (Inl e)
    then show ?thesis by simp
  next
    case (Inr s)
    then have "compatible q enrolled_emb"
      using similarity_raises_iff [of A q enrolled_emb] by auto
    with "2.prems" have "\<exists>p \<in> set ps. \<not> compatible q (snd p)" by auto
    from "2.IH" [OF Inr this] Inr show ?thesis by simp
  qed
qed

lemma scan_pairs_returns:
  "\<forall>p \<in> set ps. compatible q (snd p) \<Longrightarrow> \<exists>r. scan_pairs A q ps best = Inr r"
proof (induction A q ps best rule: scan_pairs.induct)
  case (1 A q best)
  then show ?case by simp
next
  case (2 A q name enrolled_emb ps best_score best_match)
  from "2.prems" have "compatible q enrolled_emb" by simp
  then obtain s where s: "similarity A q enrolled_emb = Inr s"
    using similarity_raises_iff [of A q enrolled_emb]
    by (cases "similarity A q enrolled_emb") auto
  from "2.prems" have "\<forall>p \<in> set ps. compatible q (snd p)" by simp
  from "2.IH" [OF s this] s show ?case by simp
qed

lemma same_dim_iff:
  "same_dim q d \<longleftrightarrow> (\<forall>p \<in> set (pairs d). compatible q (snd p))"
  by (auto simp: same_dim_def list_all_iff)

lemma scan_db_raises:
  "\<not> same_dim q d \<Longrightarrow> \<exists>e. scan_db A q d best = Inl e"
  unfolding scan_db_pairs by (rule scan_pairs_raises) (auto simp: same_dim_iff)

lemma scan_db_returns:
  "same_dim q d \<Longrightarrow> \<exists>r. scan_db A q d best = Inr r"
  unfolding scan_db_pairs by (rule scan_pairs_returns) (auto simp: same_dim_iff)

subsection \<open>What identification returns\<close>

lemma identify_speaker_scan:
  "voice_db st \<noteq> [] \<Longrightarrow> scan_db A q (voice_db st) (Finite (- 1), ''Unknown'') = Inr (b, m) \<Longrightarrow>
     identify_speaker A (Inr q) st =
       (\<lparr>speaker = (if np_lt b (Finite threshold) then ''Unknown'' else m), confidence = b\<rparr>, st)"
  by (simp add: identify_speaker_def)

lemma identify_speaker_raise:
  "voice_db st \<noteq> [] \<Longrightarrow>
     identify_speaker A (Inl e) st =
       (\<lparr>speaker = ''Error'', confidence = Finite 0\<rparr>,
        st\<lparr>stdout := stdout st @ [''Identification Error: '' @ str e]\<rparr>)"
  by (simp add: identify_speaker_def)

lemma identify_speaker_scan_raise:
  "voice_db st \<noteq> [] \<Longrightarrow> scan_db A q (voice_db st) (Finite (- 1), ''Unknown'') = Inl e \<Longrightarrow>
     identify_speaker A (Inr q) st =
       (\<lparr>speaker = ''Error'', confidence = Finite 0\<rparr>,
        st\<lparr>stdout := stdout st @ [''Identification Error: '' @ str e]\<rparr>)"
  by (simp add: identify_speaker_def)

lemma pairs_nonempty_db: "p \<in> set (pairs d) \<Longrightarrow> d \<noteq> []"
  by (auto simp: pairs_Nil)

lemma threshold_gt_minus_one: "np_gt (Finite threshold) (Finite (- 1))"
  by (simp add: threshold_def)

text \<open>When some pair scores at least the threshold, the result is the first pair whose
  score nothing exceeds, and the confidence is its score.\<close>

lemma identify_above:
  assumes dim: "same_dim q (voice_db st)"
    and mem: "(n0, e0) \<in> set (pairs (voice_db st))"
    and above: "np_gt (score A q e0) (Finite threshold) \<or> score A q e0 = Finite threshold"
  shows "\<exists>M m pre e post.
     identify_speaker A (Inr q) st = (\<lparr>speaker = m, confidence = M\<rparr>, st) \<and>
     pairs (voice_db st) = pre @ (m, e) # post \<and> score A q e = M \<and>
     (\<forall>p \<in> set pre. \<not> np_gt (score A q (snd p)) M \<and> score A q (snd p) \<noteq> M) \<and>
     (\<forall>p \<in> set post. \<not> np_gt (score A q (snd p)) M) \<and>
     (M = score A q e0 \<or> np_gt M (score A q e0))"
proof -
  let ?s0 = "score A q e0"
  have ne: "voice_db st \<noteq> []" using mem by (rule pairs_nonempty_db)
  have s0: "np_gt ?s0 (Finite (- 1))"
    using above threshold_gt_minus_one np_gt_trans by auto
  then have s0_num: "?s0 \<noteq> NaN" using np_gt_not_NaN by blast
  from scan_db_returns [OF dim] obtain b m
    where run: "scan_pairs A q (pairs (voice_db st)) (Finite (- 1), ''Unknown'') = Inr (b, m)"
    unfolding scan_db_pairs by fastforce
  from scan_pairs_result [OF run] show ?thesis
  proof (elim disjE conjE exE)
    assume "\<forall>p\<in>set (pairs (voice_db st)). \<not> np_gt (score A q (snd p)) (Finite (- 1))"
    with mem s0 show ?thesis by fastforce
  next
    fix pre e post
    assume gt: "np_gt b (Finite (- 1))" and split: "pairs (voice_db st) = pre @ (m, e) # post"
      and e: "score A q e = b"
      and pre: "\<forall>p\<in>set pre. \<not> np_gt (score A q (snd p)) b \<and> score A q (snd p) \<noteq> b"
      and post: "\<forall>p\<in>set post. \<not> np_gt (score A q (snd p)) b"
    have b_num: "b \<noteq> NaN" using gt np_gt_not_NaN by blast
    from mem split have "(n0, e0) \<in> set pre \<or> (n0, e0) = (m, e) \<or> (n0, e0) \<in> set post" by auto
    then have "\<not> np_gt ?s0 b" using pre post e np_gt_irrefl by fastforce
    with np_gt_total [OF b_num s0_num] have ge: "b = ?s0 \<or> np_gt b ?s0" by blast
    have "np_gt b (Finite threshold) \<or> b = Finite threshold"
    proof (cases "b = ?s0")
      case True
      with above show ?thesis by simp
    next
      case False
      with ge have "np_gt b ?s0" by simp
      with above show ?thesis by (auto dest: np_gt_trans)
    qed
    then have "\<not> np_lt b (Finite threshold)"
      unfolding np_lt_def using np_gt_asym np_gt_irrefl by blast
    with identify_speaker_scan [OF ne, of A q b m] run
    have "identify_speaker A (Inr q) st = (\<lparr>speaker = m, confidence = b\<rparr>, st)"
      by (simp add: scan_db_pairs)
    with split e pre post ge show ?thesis by blast
  qed
qed

text \<open>When nothing exceeds the initial score, the result is the initial pair.\<close>

lemma identify_nothing_above_initial:
  assumes dim: "same_dim q (voice_db st)" and ne: "voice_db st \<noteq> []"
    and none: "\<forall>p \<in> set (pairs (voice_db st)). \<not> np_gt (score A q (snd p)) (Finite (- 1))"
  shows "identify_speaker A (Inr q) st =
     (\<lparr>speaker = ''Unknown'', confidence = Finite (- 1)\<rparr>, st)"
proof -
  from scan_db_returns [OF dim] obtain b m
    where run: "scan_pairs A q (pairs (voice_db st)) (Finite (- 1), ''Unknown'') = Inr (b, m)"
    unfolding scan_db_pairs by fastforce
  have "b = Finite (- 1) \<and> m = ''Unknown''"
    using scan_pairs_result [OF run]
  proof (elim disjE conjE exE)
    assume "b = Finite (- 1)" "m = ''Unknown''"
    then show ?thesis by simp
  next
    fix pre e post
    assume gt: "np_gt b (Finite (- 1))" and split: "pairs (voice_db st) = pre @ (m, e) # post"
      and e: "score A q e = b"
    from split have "(m, e) \<in> set (pairs (voice_db st))" by simp
    with none have "\<not> np_gt (score A q e) (Finite (- 1))" by fastforce
    with gt e show ?thesis by simp
  qed
  with identify_speaker_scan [OF ne, of A q b m] run show ?thesis
    by (simp add: scan_db_pairs np_lt_def threshold_def)
qed

text \<open>Below the threshold the speaker is hidden and the score is returned.\<close>

lemma identify_below:
  assumes dim: "same_dim q (voice_db st)"
    and mem: "(n0, e0) \<in> set (pairs (voice_db st))"
    and best: "score A q e0 = Finite M"
    and max: "\<forall>p \<in> set (pairs (voice_db st)). \<not> np_gt (score A q (snd p)) (Finite M)"
    and lo: "- 1 \<le> M" and hi: "M < threshold"
  shows "identify_speaker A (Inr q) st =
     (\<lparr>speaker = ''Unknown'', confidence = Finite M\<rparr>, st)"
proof -
  have ne: "voice_db st \<noteq> []" using mem by (rule pairs_nonempty_db)
  from scan_db_returns [OF dim] obtain b m
    where run: "scan_pairs A q (pairs (voice_db st)) (Finite (- 1), ''Unknown'') = Inr (b, m)"
    unfolding scan_db_pairs by fastforce
  have "b = Finite M"
    using scan_pairs_result [OF run]
  proof (elim disjE conjE exE)
    assume b: "b = Finite (- 1)"
      and "\<forall>p\<in>set (pairs (voice_db st)). \<not> np_gt (score A q (snd p)) (Finite (- 1))"
    with mem best have "\<not> np_gt (Finite M) (Finite (- 1))" by fastforce
    with lo b show ?thesis by simp
  next
    fix pre e post
    assume gt: "np_gt b (Finite (- 1))" and split: "pairs (voice_db st) = pre @ (m, e) # post"
      and e: "score A q e = b"
      and pre: "\<forall>p\<in>set pre. \<not> np_gt (score A q (snd p)) b \<and> score A q (snd p) \<noteq> b"
      and post: "\<forall>p\<in>set post. \<not> np_gt (score A q (snd p)) b"
    have b_num: "b \<noteq> NaN" using gt np_gt_not_NaN by blast
    from mem split have "(n0, e0) \<in> set pre \<or> (n0, e0) = (m, e) \<or> (n0, e0) \<in> set post" by auto
    then have "\<not> np_gt (Finite M) b" using pre post e best np_gt_irrefl by fastforce
    moreover have "\<not> np_gt b (Finite M)" using max split e by fastforce
    ultimately show ?thesis using np_gt_total [OF b_num, of "Finite M"] by auto
  qed
  with identify_speaker_scan [OF ne, of A q b m] run hi show ?thesis
    by (simp add: scan_db_pairs np_lt_def)
qed

subsection \<open>Enrollment and persistence\<close>











lemma voice_db_enroll:
  "voice_db (snd (enroll_speaker name (Inr v) st)) =
     append_embedding name v (ensure_key name (voice_db st))"
  by (cases "disk st") (simp_all add: enroll_speaker_def save_db_def)

lemma map_of_append_embedding:
  "map_of (append_embedding name v d) k =
     (if k = name then map_option (\<lambda>vs. vs @ [v]) (map_of d name) else map_of d k)"
  by (induction d) (auto simp: append_embedding_def)

lemma map_of_ensure_key:
  "map_of (ensure_key name d) k =
     (if k = name \<and> map_of d name = None then Some [] else map_of d k)"
proof (cases "name \<in> set (map fst d)")
  case True
  then have "map_of d name \<noteq> None" by (simp add: map_of_eq_None_iff)
  with True show ?thesis by (simp add: ensure_key_def)
next
  case False
  then have none: "map_of d name = None" by (simp add: map_of_eq_None_iff)
  have "map_of (d @ [(name, [])]) k = (if k = name then Some [] else map_of d k)"
    using none by (auto simp: map_add_def split: option.splits)
  with False none show ?thesis by (simp add: ensure_key_def)
qed

lemma map_of_enroll:
  "map_of (append_embedding name v (ensure_key name d)) k =
     (if k = name then Some ((case map_of d name of None \<Rightarrow> [] | Some vs \<Rightarrow> vs) @ [v])
      else map_of d k)"
  by (simp add: map_of_append_embedding map_of_ensure_key split: option.splits)

lemma keys_append_embedding: "map fst (append_embedding name v d) = map fst d"
  by (induction d) (auto simp: append_embedding_def)

lemma keys_enroll:
  "map fst (append_embedding name v (ensure_key name d)) =
     map fst d @ (if name \<in> set (map fst d) then [] else [name])"
  by (simp add: keys_append_embedding ensure_key_def)

lemma wf_db_enroll: "wf_db d \<Longrightarrow> wf_db (append_embedding name v (ensure_key name d))"
  unfolding wf_db_def keys_enroll by simp

lemma np_array_tolist: "np_array (tolist a) = a"
  by (cases a) simp_all

lemma roundtrip_maps:
  "map (\<lambda>(k, v). (k, map np_array v)) (map (\<lambda>(k, v). (k, map tolist v)) d) = d"
  by (induction d) (auto simp: comp_def np_array_tolist)

lemma startup_after_save:
  "voice_db (snd (startup (Some (Document (map (\<lambda>(k, v). (k, map tolist v)) d))) dk)) = d"
  by (simp add: startup_def load_db_def load_db_body_def roundtrip_maps del: map_map)

lemma enroll_writable:
  "disk st = Writable \<Longrightarrow>
     enroll_speaker name (Inr v) st =
       (Inr \<lparr>status = ''success'', message = ''Enrolled '' @ name\<rparr>,
        st\<lparr>voice_db := append_embedding name v (ensure_key name (voice_db st)),
           embeddings_file := Some (Document (map (\<lambda>(k, v). (k, map tolist v))
             (append_embedding name v (ensure_key name (voice_db st)))))\<rparr>)"
  by (simp add: enroll_speaker_def save_db_def)

lemma enroll_not_writable:
  "disk st \<noteq> Writable \<Longrightarrow>
     \<exists>detail. fst (enroll_speaker name (Inr v) st) = Inl (HTTPException 500 detail)"
  by (cases "disk st") (simp_all add: enroll_speaker_def save_db_def)

lemma file_after_failed_enroll:
  "disk st \<noteq> Writable \<Longrightarrow>
     embeddings_file (snd (enroll_speaker name (Inr v) st)) = embeddings_file st \<or>
     (\<exists>e. embeddings_file (snd (enroll_speaker name (Inr v) st)) = Some (Unloadable e))"
  by (cases "disk st") (simp_all add: enroll_speaker_def save_db_def)

lemma startup_unloadable_db: "voice_db (snd (startup (Some (Unloadable e)) dk)) = []"
  by (simp add: startup_def load_db_def load_db_body_def)

lemma enroll_changes_db:
  "append_embedding name v (ensure_key name d) \<noteq> d"
proof
  assume "append_embedding name v (ensure_key name d) = d"
  then have "map_of (append_embedding name v (ensure_key name d)) name = map_of d name" by simp
  then show False by (simp add: map_of_enroll split: option.splits)
qed

lemma enroll_db_nonempty: "append_embedding name v (ensure_key name d) \<noteq> []"
proof
  assume "append_embedding name v (ensure_key name d) = []"
  then have "map_of (append_embedding name v (ensure_key name d)) name = map_of [] name" by simp
  then show False by (simp add: map_of_enroll)
qed

lemma load_db_never_raises: "fst (load_db st) = Inr ()"
  by (simp add: load_db_def split: option.splits sum.splits)

subsection \<open>The exact arithmetic\<close>

lemma dot_Cons: "dot (x # xs) (y # ys) = x * y + dot xs ys"
  by (simp add: dot_def)

lemma dot_Nil: "dot [] ys = 0" "dot xs [] = 0"
  by (simp_all add: dot_def)

lemma dot_self_nonneg: "0 \<le> dot xs xs"
  by (induction xs) (simp_all add: dot_Cons dot_Nil)

lemma dot_self_zero_iff: "dot xs xs = 0 \<longleftrightarrow> (\<forall>x \<in> set xs. x = 0)"
proof (induction xs)
  case Nil
  then show ?case by (simp add: dot_Nil)
next
  case (Cons x xs)
  have "0 \<le> x * x" by simp
  moreover have "0 \<le> dot xs xs" by (rule dot_self_nonneg)
  ultimately have "x * x + dot xs xs = 0 \<longleftrightarrow> x * x = 0 \<and> dot xs xs = 0"
    by (rule add_nonneg_eq_0_iff)
  with Cons.IH show ?case by (simp add: dot_Cons)
qed

text \<open>Without rounding, a vector that is not zero has similarity 1 with itself.\<close>

lemma cosine_exact_self:
  assumes "\<exists>x \<in> set xs. x \<noteq> 0"
  shows "cosine exact xs xs = Finite 1"
proof -
  have nz: "dot xs xs \<noteq> 0" using assms by (simp add: dot_self_zero_iff)
  have "sqrt (dot xs xs) * sqrt (dot xs xs) = dot xs xs"
    by (simp add: dot_self_nonneg)
  with nz show ?thesis by (simp add: cosine_def exact_def)
qed

text \<open>The definitions that evaluating a handler on a concrete state unfolds.\<close>

lemmas eval_defs = identify_speaker_def enroll_speaker_def save_db_def load_db_def load_db_body_def
  startup_def ensure_key_def append_embedding_def cosine_def exact_def dot_def
  np_lt_def score_def pairs_def pairs_before_def same_dim_def threshold_def

section \<open>The claims\<close>

subsection \<open>C1: which speaker the scan returns\<close>

text \<open>
  C1, as stated: for every non-empty database and every query, \<open>identify\<close> returns the
  speaker attaining the maximum cosine similarity, the first one in iteration order on a
  tie. The threshold stands in the way: with one enrolled speaker whose vector is
  orthogonal to the query, that speaker attains the maximum (0) and the handler returns
  \<^verbatim>\<open>"Unknown"\<close>.
\<close>

theorem identify_best_below_threshold_counterexample:
  "pairs [(''alice'', [Array [1, 0]])] = [(''alice'', Array [1, 0])] \<and>
   score exact (Array [0, 1]) (Array [1, 0]) = Finite 0 \<and>
   speaker (fst (identify_speaker exact (Inr (Array [0, 1]))
      \<lparr>voice_db = [(''alice'', [Array [1, 0]])], embeddings_file = None,
       disk = Writable, stdout = []\<rparr>)) = ''Unknown''"
  by (simp add: eval_defs)

text \<open>
  C1, amended: when no pair raises (every enrolled vector has the dimension of the
  query) and the largest computed cosine similarity \<open>M\<close> is at least the double 0.70,
  \<open>identify\<close> returns \<open>M\<close> as the confidence, and the speaker of the first pair, in
  iteration order (\<open>pairs\<close>), whose computed similarity equals \<open>M\<close>: no pair before it
  attains \<open>M\<close>. This holds for every arithmetic \<open>A\<close>, so for the doubles numpy computes.
\<close>

theorem identify_returns_first_best:
  assumes "same_dim q (voice_db st)"
    and "(n0, e0) \<in> set (pairs (voice_db st))"
    and "score A q e0 = M"
    and "\<forall>p \<in> set (pairs (voice_db st)). \<not> np_gt (score A q (snd p)) M"
    and "np_gt M (Finite threshold) \<or> M = Finite threshold"
  shows "\<exists>pre e post.
     pairs (voice_db st) = pre @ (speaker (fst (identify_speaker A (Inr q) st)), e) # post \<and>
     score A q e = M \<and>
     confidence (fst (identify_speaker A (Inr q) st)) = M \<and>
     (\<forall>p \<in> set pre. score A q (snd p) \<noteq> M)"
proof -
  from identify_above [OF assms(1,2), of A] assms(3,5) obtain M' m pre e post where
    res: "identify_speaker A (Inr q) st = (\<lparr>speaker = m, confidence = M'\<rparr>, st)"
    and split: "pairs (voice_db st) = pre @ (m, e) # post" and e: "score A q e = M'"
    and pre: "\<forall>p \<in> set pre. \<not> np_gt (score A q (snd p)) M' \<and> score A q (snd p) \<noteq> M'"
    and ge: "M' = M \<or> np_gt M' M"
    by auto
  from split have "(m, e) \<in> set (pairs (voice_db st))" by simp
  with assms(4) e have "\<not> np_gt M' M" by fastforce
  with ge have "M' = M" by simp
  with res split e pre show ?thesis by auto
qed

text \<open>The tie of the specification: two speakers enrolled with the same vector, and the
  query is that vector. The pair returned has nothing before it, so it is the first.\<close>

theorem identify_returns_first_best_witness:
  "\<exists>e post.
     pairs [(''alice'', [Array [1, 0]]), (''bob'', [Array [1, 0]])] =
       (speaker (fst (identify_speaker exact (Inr (Array [1, 0]))
          \<lparr>voice_db = [(''alice'', [Array [1, 0]]), (''bob'', [Array [1, 0]])],
           embeddings_file = None, disk = Writable, stdout = []\<rparr>)), e) # post \<and>
     speaker (fst (identify_speaker exact (Inr (Array [1, 0]))
          \<lparr>voice_db = [(''alice'', [Array [1, 0]]), (''bob'', [Array [1, 0]])],
           embeddings_file = None, disk = Writable, stdout = []\<rparr>)) = ''alice''"
proof -
  let ?st = "\<lparr>voice_db = [(''alice'', [Array [1, 0]]), (''bob'', [Array [1, 0]])],
           embeddings_file = None, disk = Writable, stdout = []\<rparr>"
  have d: "same_dim (Array [1, 0]) (voice_db ?st)" by (simp add: eval_defs)
  have m: "(''bob'', Array [1, 0]) \<in> set (pairs (voice_db ?st))" by (simp add: eval_defs)
  have s: "score exact (Array [1, 0]) (Array [1, 0]) = Finite 1" by (simp add: eval_defs)
  have x: "\<forall>p \<in> set (pairs (voice_db ?st)).
      \<not> np_gt (score exact (Array [1, 0]) (snd p)) (Finite 1)"
    by (simp add: eval_defs)
  have t: "np_gt (Finite 1) (Finite threshold) \<or> Finite 1 = Finite threshold"
    by (simp add: threshold_def)
  from identify_returns_first_best [OF d m s x t] show ?thesis
    by (simp add: eval_defs)
qed

subsection \<open>C2: below the threshold\<close>

text \<open>
  C2, as stated: when the best cosine similarity is below 0.70 the result is the
  sentinel \<^verbatim>\<open>"unknown"\<close> with the best raw score. The string the handler returns is
  \<^verbatim>\<open>"Unknown"\<close>, and speaker names are case-sensitive strings.
\<close>

theorem identify_below_threshold_counterexample:
  "score exact (Array [1, 0]) (Array [0, 1]) = Finite 0 \<and>
   fst (identify_speaker exact (Inr (Array [1, 0]))
      \<lparr>voice_db = [(''bob'', [Array [0, 1]])], embeddings_file = None,
       disk = Writable, stdout = []\<rparr>) \<noteq> \<lparr>speaker = ''unknown'', confidence = Finite 0\<rparr>"
  by (simp add: eval_defs)

text \<open>
  C2, amended: on a non-empty database where no pair raises, if the largest computed
  cosine similarity is a number \<open>M\<close> with \<open>-1.0 \<le> M\<close> and \<open>M\<close> strictly below the double
  0.70, \<open>identify\<close> returns the speaker \<^verbatim>\<open>"Unknown"\<close> and \<open>M\<close>, unchanged, as the
  confidence. The running maximum starts at \<open>-1.0\<close>: if no computed similarity exceeds
  \<open>-1.0\<close> (each is \<^verbatim>\<open>nan\<close>, or at most \<open>-1.0\<close>, which rounding allows), the
  confidence returned is \<open>-1.0\<close>. This holds for every arithmetic \<open>A\<close>.
\<close>

theorem identify_below_threshold:
  assumes "same_dim q (voice_db st)" and "voice_db st \<noteq> []"
  shows "((n0, e0) \<in> set (pairs (voice_db st)) \<and> score A q e0 = Finite M \<and>
       (\<forall>p \<in> set (pairs (voice_db st)). \<not> np_gt (score A q (snd p)) (Finite M)) \<and>
       - 1 \<le> M \<and> M < threshold \<longrightarrow>
       fst (identify_speaker A (Inr q) st) = \<lparr>speaker = ''Unknown'', confidence = Finite M\<rparr>) \<and>
     ((\<forall>p \<in> set (pairs (voice_db st)). \<not> np_gt (score A q (snd p)) (Finite (- 1))) \<longrightarrow>
       fst (identify_speaker A (Inr q) st) =
         \<lparr>speaker = ''Unknown'', confidence = Finite (- 1)\<rparr>)"
proof (intro conjI impI)
  assume "(n0, e0) \<in> set (pairs (voice_db st)) \<and> score A q e0 = Finite M \<and>
       (\<forall>p \<in> set (pairs (voice_db st)). \<not> np_gt (score A q (snd p)) (Finite M)) \<and>
       - 1 \<le> M \<and> M < threshold"
  then have "identify_speaker A (Inr q) st =
      (\<lparr>speaker = ''Unknown'', confidence = Finite M\<rparr>, st)"
    using assms(1) by (intro identify_below) auto
  then show "fst (identify_speaker A (Inr q) st) =
      \<lparr>speaker = ''Unknown'', confidence = Finite M\<rparr>" by simp
next
  assume "\<forall>p \<in> set (pairs (voice_db st)). \<not> np_gt (score A q (snd p)) (Finite (- 1))"
  from identify_nothing_above_initial [OF assms this]
  show "fst (identify_speaker A (Inr q) st) =
      \<lparr>speaker = ''Unknown'', confidence = Finite (- 1)\<rparr>" by simp
qed

theorem identify_below_threshold_witness:
  "fst (identify_speaker exact (Inr (Array [1, 0]))
      \<lparr>voice_db = [(''alice'', [Array [- 1, 0], Array [0, 2]]), (''bob'', [Array [0, 0]])],
       embeddings_file = None, disk = Writable, stdout = []\<rparr>) =
     \<lparr>speaker = ''Unknown'', confidence = Finite 0\<rparr> \<and>
   fst (identify_speaker exact (Inr (Array [1, 0]))
      \<lparr>voice_db = [(''bob'', [Array [0, 0]])],
       embeddings_file = None, disk = Writable, stdout = []\<rparr>) =
     \<lparr>speaker = ''Unknown'', confidence = Finite (- 1)\<rparr>"
proof -
  let ?st = "\<lparr>voice_db = [(''alice'', [Array [- 1, 0], Array [0, 2]]), (''bob'', [Array [0, 0]])],
       embeddings_file = None, disk = Writable, stdout = []\<rparr>"
  let ?sb = "\<lparr>voice_db = [(''bob'', [Array [0, 0]])],
       embeddings_file = None, disk = Writable, stdout = []\<rparr>"
  have d: "same_dim (Array [1, 0]) (voice_db ?st)" by (simp add: eval_defs)
  have n: "voice_db ?st \<noteq> []" by simp
  have h1: "(''alice'', Array [0, 2]) \<in> set (pairs (voice_db ?st))"
    by (simp add: eval_defs)
  have h2: "score exact (Array [1, 0]) (Array [0, 2]) = Finite 0"
    by (simp add: eval_defs)
  have h3: "\<forall>p \<in> set (pairs (voice_db ?st)).
         \<not> np_gt (score exact (Array [1, 0]) (snd p)) (Finite 0)"
    by (simp add: eval_defs)
  have h4: "- 1 \<le> (0::real) \<and> 0 < threshold"
    by (simp add: threshold_def)
  note h = h1 h2 h3 h4
  have d0: "same_dim (Array [1, 0]) (voice_db ?sb)" by (simp add: eval_defs)
  have n0: "voice_db ?sb \<noteq> []" by simp
  have h0: "\<forall>p \<in> set (pairs (voice_db ?sb)).
      \<not> np_gt (score exact (Array [1, 0]) (snd p)) (Finite (- 1))"
    by (simp add: eval_defs)
  from identify_below_threshold [OF d n, of "''alice''" "Array [0, 2]" exact 0] h
    identify_below_threshold [OF d0 n0, of "''x''" "Array []" exact 0] h0
  show ?thesis by blast
qed

subsection \<open>C3: the empty database\<close>

text \<open>
  C3, as stated: on an empty database \<open>identify\<close> returns \<^verbatim>\<open>("unknown", 0.0)\<close>.
  The handler returns the string \<^verbatim>\<open>"Unknown"\<close>.
\<close>

theorem identify_empty_db_counterexample:
  "fst (identify_speaker exact (Inr (Array [1, 0]))
      \<lparr>voice_db = [], embeddings_file = None, disk = Writable, stdout = []\<rparr>) \<noteq>
     \<lparr>speaker = ''unknown'', confidence = Finite 0\<rparr>"
  by (simp add: identify_speaker_def)

text \<open>
  C3, amended: for every query, \<open>identify\<close> on an empty database returns the speaker
  \<^verbatim>\<open>"Unknown"\<close> with confidence 0.0 and changes nothing, without computing any
  similarity: the result is the same whatever the arithmetic is and whatever the
  embedding provider yields, an array of any shape or an exception.
\<close>

theorem identify_empty_db:
  "voice_db st = [] \<Longrightarrow>
     identify_speaker A provider st = (\<lparr>speaker = ''Unknown'', confidence = Finite 0\<rparr>, st)"
  by (simp add: identify_speaker_def)

theorem identify_empty_db_witness:
  "identify_speaker exact (Inl (ProviderError ''no audio''))
      \<lparr>voice_db = [], embeddings_file = None, disk = Writable, stdout = []\<rparr> =
     (\<lparr>speaker = ''Unknown'', confidence = Finite 0\<rparr>,
      \<lparr>voice_db = [], embeddings_file = None, disk = Writable, stdout = []\<rparr>)"
  using identify_empty_db
    [of "\<lparr>voice_db = [], embeddings_file = None, disk = Writable, stdout = []\<rparr>"
        exact "Inl (ProviderError ''no audio'')"]
  by simp

subsection \<open>C4: errors while identifying\<close>

text \<open>
  C4, as stated: a failing similarity computation, in particular a zero norm that makes
  the cosine divide by zero, gives a result of kind \<^verbatim>\<open>"error"\<close>. A zero norm
  raises nothing: numpy's quotient is \<^verbatim>\<open>nan\<close>, no comparison with it holds, the
  pair is skipped and the handler returns an ordinary result, here
  \<^verbatim>\<open>("Unknown", -1.0)\<close>, and prints nothing.
\<close>

theorem identify_zero_norm_counterexample:
  "fl_norm exact [0, 0] = Finite 0 \<and>
   identify_speaker exact (Inr (Array [1, 0]))
      \<lparr>voice_db = [(''alice'', [Array [0, 0]])], embeddings_file = None,
       disk = Writable, stdout = []\<rparr> =
     (\<lparr>speaker = ''Unknown'', confidence = Finite (- 1)\<rparr>,
      \<lparr>voice_db = [(''alice'', [Array [0, 0]])], embeddings_file = None,
       disk = Writable, stdout = []\<rparr>)"
  by (simp add: eval_defs)

text \<open>
  C4, amended: on a non-empty database, when the embedding provider raises, or the
  similarity computation raises because an enrolled vector's dimension differs from the
  query's, \<open>identify\<close> prints the exception and returns the speaker \<^verbatim>\<open>"Error"\<close>
  with confidence 0.0 instead of propagating it. When all dimensions agree nothing is
  raised, zero norms included: nothing is printed and the state is as before.
\<close>

theorem identify_catches_exceptions:
  assumes "voice_db st \<noteq> []"
  shows "identify_speaker A (Inl e) st =
       (\<lparr>speaker = ''Error'', confidence = Finite 0\<rparr>,
        st\<lparr>stdout := stdout st @ [''Identification Error: '' @ str e]\<rparr>) \<and>
     (\<not> same_dim q (voice_db st) \<longrightarrow>
        (\<exists>e'. identify_speaker A (Inr q) st =
           (\<lparr>speaker = ''Error'', confidence = Finite 0\<rparr>,
            st\<lparr>stdout := stdout st @ [''Identification Error: '' @ str e']\<rparr>))) \<and>
     (same_dim q (voice_db st) \<longrightarrow> snd (identify_speaker A (Inr q) st) = st)"
proof (intro conjI impI)
  show "identify_speaker A (Inl e) st =
       (\<lparr>speaker = ''Error'', confidence = Finite 0\<rparr>,
        st\<lparr>stdout := stdout st @ [''Identification Error: '' @ str e]\<rparr>)"
    using assms by (rule identify_speaker_raise)
next
  assume "\<not> same_dim q (voice_db st)"
  from scan_db_raises [OF this] obtain e' where
    "scan_db A q (voice_db st) (Finite (- 1), ''Unknown'') = Inl e'" by blast
  from identify_speaker_scan_raise [OF assms this]
  show "\<exists>e'. identify_speaker A (Inr q) st =
           (\<lparr>speaker = ''Error'', confidence = Finite 0\<rparr>,
            st\<lparr>stdout := stdout st @ [''Identification Error: '' @ str e']\<rparr>)" by blast
next
  assume "same_dim q (voice_db st)"
  from scan_db_returns [OF this] obtain b m where
    "scan_db A q (voice_db st) (Finite (- 1), ''Unknown'') = Inr (b, m)" by fastforce
  from identify_speaker_scan [OF assms this]
  show "snd (identify_speaker A (Inr q) st) = st" by simp
qed

theorem identify_catches_exceptions_witness:
  "identify_speaker exact (Inr (Array [1, 0]))
      \<lparr>voice_db = [(''alice'', [Array [1, 0, 0]])], embeddings_file = None,
       disk = Writable, stdout = []\<rparr> =
     (\<lparr>speaker = ''Error'', confidence = Finite 0\<rparr>,
      \<lparr>voice_db = [(''alice'', [Array [1, 0, 0]])], embeddings_file = None,
       disk = Writable, stdout = [''Identification Error: shapes not aligned'']\<rparr>)"
proof -
  let ?st = "\<lparr>voice_db = [(''alice'', [Array [1, 0, 0]])], embeddings_file = None,
       disk = Writable, stdout = []\<rparr>"
  have ne: "voice_db ?st \<noteq> []" by simp
  have "\<not> same_dim (Array [1, 0]) (voice_db ?st)" by (simp add: same_dim_def pairs_def)
  with identify_catches_exceptions [OF ne, of exact "ValueError ''x''" "Array [1, 0]"]
  obtain e' where "identify_speaker exact (Inr (Array [1, 0])) ?st =
           (\<lparr>speaker = ''Error'', confidence = Finite 0\<rparr>,
            ?st\<lparr>stdout := stdout ?st @ [''Identification Error: '' @ str e']\<rparr>)" by blast
  then show ?thesis by (simp add: eval_defs)
qed

subsection \<open>C5: saving and loading\<close>

text \<open>
  C5: saving the database and loading it again gives the database back. It holds for
  every database, so also for one with a speaker, a vector and one dimension throughout:
  after a save that succeeds, \<^verbatim>\<open>load_db\<close> in the same process and the start of a
  new process on the file written both end with the database that was saved.
\<close>

theorem save_then_load:
  "disk st = Writable \<Longrightarrow>
     fst (save_db st) = Inr () \<and>
     voice_db (snd (load_db (snd (save_db st)))) = voice_db st \<and>
     voice_db (snd (startup (embeddings_file (snd (save_db st))) dk)) = voice_db st"
  by (simp add: save_db_def load_db_def load_db_body_def startup_def roundtrip_maps
       del: map_map)

theorem save_then_load_witness:
  "voice_db (snd (startup (embeddings_file (snd (save_db
      \<lparr>voice_db = [(''alice'', [Array [1, 0], Array [0, 1]]), (''bob'', [Array [1, 1]])],
       embeddings_file = None, disk = Writable, stdout = []\<rparr>))) Writable)) =
     [(''alice'', [Array [1, 0], Array [0, 1]]), (''bob'', [Array [1, 1]])]"
  using save_then_load
    [of "\<lparr>voice_db = [(''alice'', [Array [1, 0], Array [0, 1]]), (''bob'', [Array [1, 1]])],
       embeddings_file = None, disk = Writable, stdout = []\<rparr>" Writable]
  by simp

subsection \<open>C6: what enrollment does\<close>

text \<open>
  C6: \<open>enroll\<close> appends the vector at the end of the speaker's sequence, which starts
  empty (and last in iteration order) when the key is new; every other speaker's
  sequence and the order of the keys already there are unchanged; a second enrollment
  of the same speaker leaves both vectors, in enrollment order. After the append the
  whole updated database is written: when the write succeeds the file holds exactly
  the updated database, which a new process loads back.
\<close>

theorem enroll_appends_and_persists:
  "map_of (voice_db (snd (enroll_speaker name (Inr v) st))) name =
     Some ((case map_of (voice_db st) name of None \<Rightarrow> [] | Some vs \<Rightarrow> vs) @ [v]) \<and>
   (\<forall>other. other \<noteq> name \<longrightarrow>
      map_of (voice_db (snd (enroll_speaker name (Inr v) st))) other =
        map_of (voice_db st) other) \<and>
   map fst (voice_db (snd (enroll_speaker name (Inr v) st))) =
     map fst (voice_db st) @ (if name \<in> set (map fst (voice_db st)) then [] else [name]) \<and>
   map_of (voice_db (snd (enroll_speaker name (Inr v2)
        (snd (enroll_speaker name (Inr v) st))))) name =
     Some ((case map_of (voice_db st) name of None \<Rightarrow> [] | Some vs \<Rightarrow> vs) @ [v, v2]) \<and>
   (disk st = Writable \<longrightarrow>
      fst (enroll_speaker name (Inr v) st) =
        Inr \<lparr>status = ''success'', message = ''Enrolled '' @ name\<rparr> \<and>
      embeddings_file (snd (enroll_speaker name (Inr v) st)) =
        Some (Document (map (\<lambda>(k, es). (k, map tolist es))
          (voice_db (snd (enroll_speaker name (Inr v) st))))) \<and>
      voice_db (snd (startup (embeddings_file (snd (enroll_speaker name (Inr v) st))) dk)) =
        voice_db (snd (enroll_speaker name (Inr v) st)))"
proof (intro conjI allI impI)
  show "map_of (voice_db (snd (enroll_speaker name (Inr v) st))) name =
     Some ((case map_of (voice_db st) name of None \<Rightarrow> [] | Some vs \<Rightarrow> vs) @ [v])"
    by (simp add: voice_db_enroll map_of_enroll)
next
  fix other :: string
  assume "other \<noteq> name"
  then show "map_of (voice_db (snd (enroll_speaker name (Inr v) st))) other =
        map_of (voice_db st) other"
    by (simp add: voice_db_enroll map_of_enroll)
next
  show "map fst (voice_db (snd (enroll_speaker name (Inr v) st))) =
     map fst (voice_db st) @ (if name \<in> set (map fst (voice_db st)) then [] else [name])"
    unfolding voice_db_enroll by (rule keys_enroll)
next
  show "map_of (voice_db (snd (enroll_speaker name (Inr v2)
        (snd (enroll_speaker name (Inr v) st))))) name =
     Some ((case map_of (voice_db st) name of None \<Rightarrow> [] | Some vs \<Rightarrow> vs) @ [v, v2])"
    by (simp add: voice_db_enroll map_of_enroll)
next
  assume "disk st = Writable"
  then show "fst (enroll_speaker name (Inr v) st) =
        Inr \<lparr>status = ''success'', message = ''Enrolled '' @ name\<rparr>"
    by (simp add: enroll_writable)
next
  assume "disk st = Writable"
  then show "embeddings_file (snd (enroll_speaker name (Inr v) st)) =
        Some (Document (map (\<lambda>(k, es). (k, map tolist es))
          (voice_db (snd (enroll_speaker name (Inr v) st)))))"
    by (simp add: enroll_writable)
next
  assume "disk st = Writable"
  then show "voice_db (snd (startup (embeddings_file (snd (enroll_speaker name (Inr v) st))) dk)) =
        voice_db (snd (enroll_speaker name (Inr v) st))"
    by (simp add: enroll_writable startup_after_save)
qed

theorem enroll_appends_and_persists_witness:
  "enroll_speaker ''alice'' (Inr (Array [0, 1]))
     (snd (enroll_speaker ''alice'' (Inr (Array [1, 0]))
        \<lparr>voice_db = [(''bob'', [Array [1, 1]])], embeddings_file = None,
         disk = Writable, stdout = []\<rparr>)) =
     (Inr \<lparr>status = ''success'', message = ''Enrolled alice''\<rparr>,
      \<lparr>voice_db = [(''bob'', [Array [1, 1]]), (''alice'', [Array [1, 0], Array [0, 1]])],
       embeddings_file =
         Some (Document [(''bob'', [JList [1, 1]]),
                         (''alice'', [JList [1, 0], JList [0, 1]])]),
       disk = Writable, stdout = []\<rparr>) \<and>
   map_of (voice_db (snd (enroll_speaker ''alice'' (Inr (Array [0, 1]))
     (snd (enroll_speaker ''alice'' (Inr (Array [1, 0]))
        \<lparr>voice_db = [(''bob'', [Array [1, 1]])], embeddings_file = None,
         disk = Writable, stdout = []\<rparr>))))) ''alice'' = Some [Array [1, 0], Array [0, 1]]"
  using enroll_appends_and_persists
    [of "''alice''" "Array [1, 0]"
        "\<lparr>voice_db = [(''bob'', [Array [1, 1]])], embeddings_file = None,
          disk = Writable, stdout = []\<rparr>" "Array [0, 1]" Writable]
  by (simp add: eval_defs)

subsection \<open>C7: loading when the file is absent or not in the stored format\<close>

text \<open>
  C7, as stated: \<open>load\<close> returns an empty database when the file is absent, and when
  the stored content is malformed it logs the problem and returns an empty database.
  \<^verbatim>\<open>load_db\<close> validates nothing: it falls back to the empty database only when
  reading or converting raises. Content that is not in the stored format but converts
  without raising, here a speaker whose entry is a list of numbers where a list of
  vectors belongs, is loaded as it is: the database is not empty, its arrays are not
  vectors, and nothing is printed.
\<close>

theorem load_malformed_counterexample:
  "\<not> stored_format (Document [(''alice'', [JNumber 1, JNumber 2])]) \<and>
   startup (Some (Document [(''alice'', [JNumber 1, JNumber 2])])) Writable =
     (Inr (), \<lparr>voice_db = [(''alice'', [Scalar 1, Scalar 2])],
               embeddings_file = Some (Document [(''alice'', [JNumber 1, JNumber 2])]),
               disk = Writable, stdout = []\<rparr>)"
  by (simp add: startup_def load_db_def load_db_body_def)

text \<open>
  C7, amended: at start-up, where the database is empty and \<^verbatim>\<open>load_db\<close> is called,
  an absent file leaves the database empty; a file on which reading or converting
  raises leaves it empty and prints the problem; any other content is converted entry
  by entry and becomes the database, with nothing printed and no check that it is in the
  stored format. \<^verbatim>\<open>load_db\<close> raises in no state.
\<close>

theorem load_db_outcomes:
  "startup None dk =
     (Inr (), \<lparr>voice_db = [], embeddings_file = None, disk = dk, stdout = []\<rparr>) \<and>
   startup (Some (Unloadable e)) dk =
     (Inr (), \<lparr>voice_db = [], embeddings_file = Some (Unloadable e), disk = dk,
               stdout = [''Error loading DB: '' @ str e]\<rparr>) \<and>
   startup (Some (Document data)) dk =
     (Inr (), \<lparr>voice_db = map (\<lambda>(k, v). (k, map np_array v)) data,
               embeddings_file = Some (Document data), disk = dk, stdout = []\<rparr>) \<and>
   fst (load_db st) = Inr ()"
  by (simp add: startup_def load_db_def load_db_body_def split: option.splits sum.splits)

theorem load_db_outcomes_witness:
  "voice_db (snd (startup None Writable)) = [] \<and>
   startup (Some (Unloadable (JSONDecodeError ''Expecting value''))) Writable =
     (Inr (), \<lparr>voice_db = [],
               embeddings_file = Some (Unloadable (JSONDecodeError ''Expecting value'')),
               disk = Writable, stdout = [''Error loading DB: Expecting value'']\<rparr>) \<and>
   voice_db (snd (startup (Some (Document [(''alice'', [JList [1, 0]])])) Writable)) =
     [(''alice'', [Array [1, 0]])]"
  using load_db_outcomes
    [of Writable "JSONDecodeError ''Expecting value''" "[(''alice'', [JList [1, 0]])]"]
  by simp

subsection \<open>C8: enroll, then identify with the same vector\<close>




subsection \<open>C9: identification changes nothing\<close>

text \<open>
  C9: whatever the state and the query, and whether the result is a speaker,
  \<^verbatim>\<open>"Unknown"\<close> or \<^verbatim>\<open>"Error"\<close>, \<open>identify\<close> leaves the in-memory database and
  the persistence file as they were.
\<close>

theorem identify_leaves_db_and_file:
  "voice_db (snd (identify_speaker A provider st)) = voice_db st \<and>
   embeddings_file (snd (identify_speaker A provider st)) = embeddings_file st"
  by (simp add: identify_speaker_def split: sum.splits prod.splits)

theorem identify_leaves_db_and_file_witness:
  "voice_db (snd (identify_speaker exact (Inr (Array [1, 0, 0]))
      \<lparr>voice_db = [(''alice'', [Array [1, 0]])], embeddings_file = Some (Document []),
       disk = Writable, stdout = []\<rparr>)) = [(''alice'', [Array [1, 0]])] \<and>
   embeddings_file (snd (identify_speaker exact (Inr (Array [1, 0, 0]))
      \<lparr>voice_db = [(''alice'', [Array [1, 0]])], embeddings_file = Some (Document []),
       disk = Writable, stdout = []\<rparr>)) = Some (Document [])"
  using identify_leaves_db_and_file
    [of exact "Inr (Array [1, 0, 0])"
        "\<lparr>voice_db = [(''alice'', [Array [1, 0]])], embeddings_file = Some (Document []),
          disk = Writable, stdout = []\<rparr>"]
  by simp

subsection \<open>C10: a save that fails after the append\<close>

text \<open>
  C10: the vector is appended before the save is attempted. When the save fails (the
  file cannot be opened, or the write breaks off), the caller gets an HTTP 500, the
  in-memory database nevertheless holds the new vector, and if the file agreed with the
  in-memory database before the call, it no longer does: a new process would load a
  database different from the one in memory.
\<close>

theorem enroll_not_atomic:
  assumes "disk st \<noteq> Writable"
  shows "(\<exists>detail. fst (enroll_speaker name (Inr v) st) = Inl (HTTPException 500 detail)) \<and>
     map_of (voice_db (snd (enroll_speaker name (Inr v) st))) name =
       Some ((case map_of (voice_db st) name of None \<Rightarrow> [] | Some vs \<Rightarrow> vs) @ [v]) \<and>
     (voice_db (snd (startup (embeddings_file st) dk)) = voice_db st \<longrightarrow>
        voice_db (snd (startup (embeddings_file (snd (enroll_speaker name (Inr v) st))) dk)) \<noteq>
          voice_db (snd (enroll_speaker name (Inr v) st)))"
proof (intro conjI impI)
  show "\<exists>detail. fst (enroll_speaker name (Inr v) st) = Inl (HTTPException 500 detail)"
    using assms by (rule enroll_not_writable)
next
  show "map_of (voice_db (snd (enroll_speaker name (Inr v) st))) name =
       Some ((case map_of (voice_db st) name of None \<Rightarrow> [] | Some vs \<Rightarrow> vs) @ [v])"
    by (simp add: voice_db_enroll map_of_enroll)
next
  let ?d' = "append_embedding name v (ensure_key name (voice_db st))"
  assume agree: "voice_db (snd (startup (embeddings_file st) dk)) = voice_db st"
  from file_after_failed_enroll [OF assms, of name v]
  have "voice_db (snd (startup (embeddings_file (snd (enroll_speaker name (Inr v) st))) dk)) =
          voice_db st
      \<or> voice_db (snd (startup (embeddings_file (snd (enroll_speaker name (Inr v) st))) dk)) = []"
    using agree by (auto simp: startup_unloadable_db)
  moreover have "?d' \<noteq> voice_db st" by (rule enroll_changes_db)
  moreover have "?d' \<noteq> []" by (rule enroll_db_nonempty)
  ultimately show
    "voice_db (snd (startup (embeddings_file (snd (enroll_speaker name (Inr v) st))) dk)) \<noteq>
       voice_db (snd (enroll_speaker name (Inr v) st))"
    unfolding voice_db_enroll by metis
qed

theorem enroll_not_atomic_witness:
  "enroll_speaker ''alice'' (Inr (Array [1, 0]))
      \<lparr>voice_db = [(''bob'', [Array [0, 1]])],
       embeddings_file = Some (Document [(''bob'', [JList [0, 1]])]),
       disk = OpenFails, stdout = []\<rparr> =
     (Inl (HTTPException 500 ''cannot open embeddings.json''),
      \<lparr>voice_db = [(''bob'', [Array [0, 1]]), (''alice'', [Array [1, 0]])],
       embeddings_file = Some (Document [(''bob'', [JList [0, 1]])]),
       disk = OpenFails, stdout = []\<rparr>) \<and>
   voice_db (snd (startup (Some (Document [(''bob'', [JList [0, 1]])])) Writable)) \<noteq>
     [(''bob'', [Array [0, 1]]), (''alice'', [Array [1, 0]])]"
proof -
  let ?st = "\<lparr>voice_db = [(''bob'', [Array [0, 1]])],
       embeddings_file = Some (Document [(''bob'', [JList [0, 1]])]),
       disk = OpenFails, stdout = []\<rparr>"
  have d: "disk ?st \<noteq> Writable" by simp
  have a: "voice_db (snd (startup (embeddings_file ?st) Writable)) = voice_db ?st"
    by (simp add: eval_defs)
  have r: "enroll_speaker ''alice'' (Inr (Array [1, 0])) ?st =
     (Inl (HTTPException 500 ''cannot open embeddings.json''),
      \<lparr>voice_db = [(''bob'', [Array [0, 1]]), (''alice'', [Array [1, 0]])],
       embeddings_file = Some (Document [(''bob'', [JList [0, 1]])]),
       disk = OpenFails, stdout = []\<rparr>)"
    by (simp add: eval_defs)
  from enroll_not_atomic [OF d, of "''alice''" "Array [1, 0]" Writable] a
  have "voice_db (snd (startup (embeddings_file
            (snd (enroll_speaker ''alice'' (Inr (Array [1, 0])) ?st))) Writable)) \<noteq>
          voice_db (snd (enroll_speaker ''alice'' (Inr (Array [1, 0])) ?st))"
    by blast
  with r show ?thesis by simp
qed

end
